theory Spec2Isabelle
  imports Main
begin

section \<open>JavaScript values as the handlers read them\<close>

text \<open>
  Event payloads are JSON objects whose properties may be missing. A property that holds
  a string is a \<open>string option\<close>: \<open>None\<close> is \<open>undefined\<close>. JavaScript's
  \<open>if (x)\<close> on such a property is true exactly when the string is there and is not
  empty; an array or an object is always truthy.
\<close>

definition truthy :: "string option \<Rightarrow> bool" where
  "truthy v = (case v of None \<Rightarrow> False | Some s \<Rightarrow> s \<noteq> [])"

text \<open>\<open>x || d\<close> on a string property.\<close>

definition or_else :: "string option \<Rightarrow> string \<Rightarrow> string" where
  "or_else v d = (if truthy v then the v else d)"

text \<open>
  Assigning to \<open>textContent\<close>: \<open>undefined\<close> and \<open>null\<close> give the empty text, a
  string is stored as it is.
\<close>

definition text_of :: "string option \<Rightarrow> string" where
  "text_of v = (case v of None \<Rightarrow> [] | Some s \<Rightarrow> s)"

text \<open>
  A property that may hold any JSON value and is assigned to \<open>textContent\<close> as it is.
  The setter stores the empty text for \<open>null\<close> and \<open>String(v)\<close> for every other
  value. A number is given by the text \<open>String\<close> produces for it (\<open>5\<close>, \<open>0.5\<close>,
  \<open>1e+21\<close>), and so is an object or an array: the handlers store that text and never
  compute with the value. \<open>undefined\<close> is the \<open>None\<close> of the property.
\<close>

datatype js_value = Null | Bool bool | Number string | Str string | Object string

definition text_content :: "js_value \<Rightarrow> string" where
  "text_content v =
     (case v of
        Null \<Rightarrow> []
      | Bool b \<Rightarrow> (if b then ''true'' else ''false'')
      | Number t \<Rightarrow> t
      | Str t \<Rightarrow> t
      | Object t \<Rightarrow> t)"

text \<open>
  Agent ids are small indices; in a template literal such an id prints as its decimal
  numeral.
\<close>

definition digit :: "nat \<Rightarrow> char" where
  "digit n = ''0123456789'' ! (n mod 10)"

fun string_of_nat :: "nat \<Rightarrow> string" where
  "string_of_nat n =
     (if n < 10 then [digit n] else string_of_nat (n div 10) @ [digit n])"

declare string_of_nat.simps [simp del]

text \<open>\<open>Array.prototype.join(sep)\<close> on an array of strings.\<close>

fun join :: "string \<Rightarrow> string list \<Rightarrow> string" where
  "join sep [] = []"
| "join sep [x] = x"
| "join sep (x # y # ys) = x @ sep @ join sep (y # ys)"


text \<open>A text between double quotes, as the template literals write it.\<close>

definition quoted :: "string \<Rightarrow> string" where
  "quoted s = CHR 0x22 # s @ [CHR 0x22]"

text \<open>
  A function that may throw returns the state as the throw leaves it, with the error;
  \<open>None\<close> is a normal return. \<open>and_then\<close> runs the next statement unless the first
  threw.
\<close>

datatype error = TypeError

type_synonym 's outcome = "'s \<times> error option"

definition and_then :: "'s outcome \<Rightarrow> ('s \<Rightarrow> 's outcome) \<Rightarrow> 's outcome" where
  "and_then r f = (case r of (s, None) \<Rightarrow> f s | (s, Some e) \<Rightarrow> (s, Some e))"

section \<open>Agent Manager (js/agent.js)\<close>

text \<open>
  The payload of an agent update. \<open>active_tactic\<close> and \<open>tactics\<close> directly on the
  payload are properties the specification names; \<open>updateAgentInfo\<close> never reads them.
  \<open>pipeline\<close> is read by \<open>restoreAgent\<close> only.

  \<open>plan.tactics\<close> is tested for truthiness and then joined: \<open>None\<close> stands for
  \<open>undefined\<close> and every falsy value, \<open>TacticsArray\<close> for an array of strings, and
  \<open>NotJoinable\<close> for any other truthy value (a string, a number, an object), which has
  no \<open>join\<close> method. \<open>tension\<close> is tested against \<open>undefined\<close> only and may hold
  any value.
\<close>

datatype tactics_value = TacticsArray "string list" | NotJoinable

record plan_data =
  plan_goal :: "string option"
  plan_active_tactic :: "string option"
  plan_tactics :: "tactics_value option"

datatype interior_data =
  InteriorString string
  | InteriorObject "string option"  \<comment> \<open>an object, with its \<open>principles\<close> property\<close>

record pipeline_data =
  pipeline_components :: "string list option"
  pipeline_stage :: "string option"

record agent_data =
  name :: "string option"
  personality :: "string option"
  tension :: "js_value option"
  goal :: "string option"
  plan :: "plan_data option"
  interior :: "interior_data option"
  active_tactic :: "string option"
  tactics :: "string list option"
  pipeline :: "pipeline_data option"

text \<open>
  The seven elements \<open>agentN-name\<close>, ..., \<open>agentN-interior\<close> of one agent's panel,
  each by its \<open>textContent\<close>. The elements belong to the static page and are taken to
  exist.
\<close>

record agent_panel =
  name_text :: string
  personality_text :: string
  tension_text :: string
  goal_text :: string
  tactic_text :: string
  plan_text :: string
  interior_text :: string

record agent_panels =
  agent1 :: agent_panel
  agent2 :: agent_panel

text \<open>\<open>data.plan?.f\<close> for a string property \<open>f\<close> of the plan.\<close>

definition plan_field :: "(plan_data \<Rightarrow> 'a option) \<Rightarrow> agent_data \<Rightarrow> 'a option" where
  "plan_field f d = (case plan d of None \<Rightarrow> None | Some p \<Rightarrow> f p)"

text \<open>The statements of \<open>updateAgentInfo\<close> (lines 37 to 86), in order, on the panel chosen.\<close>

definition set_name :: "agent_data \<Rightarrow> agent_panel \<Rightarrow> agent_panel" where
  "set_name d a = (if truthy (name d) then a\<lparr>name_text := the (name d)\<rparr> else a)"

definition set_personality :: "agent_data \<Rightarrow> agent_panel \<Rightarrow> agent_panel" where
  "set_personality d a =
     (if truthy (personality d) then a\<lparr>personality_text := the (personality d)\<rparr> else a)"

definition set_tension :: "agent_data \<Rightarrow> agent_panel \<Rightarrow> agent_panel" where
  "set_tension d a =
     (case tension d of
        Some v \<Rightarrow> a\<lparr>tension_text := text_content v\<rparr>
      | None \<Rightarrow> a)"

definition set_goal :: "agent_data \<Rightarrow> agent_panel \<Rightarrow> agent_panel" where
  "set_goal d a =
     (if truthy (goal d) then a\<lparr>goal_text := the (goal d)\<rparr>
      else if truthy (plan_field plan_goal d) then a\<lparr>goal_text := the (plan_field plan_goal d)\<rparr>
      else a)"

definition set_tactic :: "agent_data \<Rightarrow> agent_panel \<Rightarrow> agent_panel" where
  "set_tactic d a =
     (if truthy (plan_field plan_active_tactic d)
      then a\<lparr>tactic_text := the (plan_field plan_active_tactic d)\<rparr>
      else a)"

text \<open>\<open>data.plan.tactics.join(', ')\<close> throws when the value has no \<open>join\<close>.\<close>

definition set_plan :: "agent_data \<Rightarrow> agent_panel \<Rightarrow> agent_panel outcome" where
  "set_plan d a =
     (case plan_field plan_tactics d of
        Some (TacticsArray ts) \<Rightarrow> (a\<lparr>plan_text := join '', '' ts\<rparr>, None)
      | Some NotJoinable \<Rightarrow> (a, Some TypeError)
      | None \<Rightarrow> (a, None))"

definition set_interior :: "agent_data \<Rightarrow> agent_panel \<Rightarrow> agent_panel" where
  "set_interior d a =
     (case interior d of
        None \<Rightarrow> a
      | Some (InteriorString s) \<Rightarrow> (if s \<noteq> [] then a\<lparr>interior_text := s\<rparr> else a)
      | Some (InteriorObject pr) \<Rightarrow> a\<lparr>interior_text := or_else pr ''--''\<rparr>)"

definition update_panel :: "agent_data \<Rightarrow> agent_panel \<Rightarrow> agent_panel outcome" where
  "update_panel d a =
     and_then
       (set_plan d (set_tactic d (set_goal d (set_tension d (set_personality d (set_name d a))))))
       (\<lambda>a'. (set_interior d a', None))"

text \<open>
  \<open>updateAgentInfo(agentId, data)\<close>: the panel is \<open>agent1\<close> when \<open>agentId === 0\<close> and
  \<open>agent2\<close> for every other id.
\<close>

definition updateAgentInfo :: "nat \<Rightarrow> agent_data \<Rightarrow> agent_panels \<Rightarrow> agent_panels outcome" where
  "updateAgentInfo agentId d ps =
     (if agentId = 0
      then (case update_panel d (agent1 ps) of (a, r) \<Rightarrow> (ps\<lparr>agent1 := a\<rparr>, r))
      else (case update_panel d (agent2 ps) of (a, r) \<Rightarrow> (ps\<lparr>agent2 := a\<rparr>, r)))"

text \<open>The patches on which \<open>updateAgentInfo\<close> throws.\<close>

definition update_throws :: "agent_data \<Rightarrow> bool" where
  "update_throws d = (plan_field plan_tactics d = Some NotJoinable)"

text \<open>The panel \<open>updateAgentInfo\<close> writes for an agent id.\<close>

definition panel_of :: "nat \<Rightarrow> agent_panels \<Rightarrow> agent_panel" where
  "panel_of agentId ps = (if agentId = 0 then agent1 ps else agent2 ps)"

text \<open>The empty payload \<open>{}\<close>.\<close>

definition no_data :: agent_data where
  "no_data = \<lparr>name = None, personality = None, tension = None, goal = None, plan = None,
     interior = None, active_tactic = None, tactics = None, pipeline = None\<rparr>"

definition no_plan :: plan_data where
  "no_plan = \<lparr>plan_goal = None, plan_active_tactic = None, plan_tactics = None\<rparr>"

section \<open>Chat Manager (js/chat.js)\<close>

text \<open>
  The only record of the conversation is the list of children of the element
  \<open>UI.conversationMessages\<close>; \<open>None\<close> stands for a page without that element. Each
  child is one rendered message: its class, the sender line, the content line, whether
  the content carries the class \<open>emotion-display\<close>, and its hover title.
\<close>

record message_element =
  className :: string
  sender_text :: string
  content_text :: string
  emotion_display :: bool
  title :: "string option"

record message_extra =
  emotion :: "string option"
  original_speech :: "string option"

definition no_extra :: message_extra where
  "no_extra = \<lparr>emotion = None, original_speech = None\<rparr>"

definition messageClass :: "string \<Rightarrow> nat option \<Rightarrow> string" where
  "messageClass sender senderId =
     ''message'' @
     (if sender = ''Error'' then '' message-error''
      else if senderId = Some 0 then '' message-left''
      else if senderId = Some 1 then '' message-right''
      else '' message-system'')"

definition render_message :: "string \<Rightarrow> string \<Rightarrow> nat option \<Rightarrow> message_extra \<Rightarrow> message_element" where
  "render_message sender message senderId extra =
     \<lparr>className = messageClass sender senderId,
      sender_text = sender,
      content_text =
        (if truthy (emotion extra) then ''['' @ the (emotion extra) @ '']'' else message),
      emotion_display = truthy (emotion extra),
      title =
        (if truthy (emotion extra) \<and> truthy (original_speech extra)
         then Some (''Original speech: '' @ quoted (the (original_speech extra)))
         else None)\<rparr>"

text \<open>\<open>addMessage(sender, message, senderId, data = {})\<close>, lines 80 to 130.\<close>

definition addMessage ::
  "string \<Rightarrow> string \<Rightarrow> nat option \<Rightarrow> message_extra \<Rightarrow>
   message_element list option \<Rightarrow> message_element list option" where
  "addMessage sender message senderId extra conversationMessages =
     (case conversationMessages of
        None \<Rightarrow> None
      | Some children \<Rightarrow>
          if sender = ''System'' then Some children
          else Some (children @ [render_message sender message senderId extra]))"


text \<open>The number of messages the chat holds, and of those it shows: the same list.\<close>

definition chat_length :: "message_element list option \<Rightarrow> nat" where
  "chat_length conversationMessages =
     (case conversationMessages of None \<Rightarrow> 0 | Some children \<Rightarrow> length children)"

section \<open>Conversation UI Manager (js/conversation-ui.js)\<close>

text \<open>
  The four arrays \<open>UI.promptBoxes\<close>, \<open>UI.promptTitles\<close>, \<open>UI.responseBoxes\<close> and
  \<open>UI.responseTimeDisplays\<close> of the DOM module, each element by its \<open>textContent\<close>.
  The DOM module builds each array with three elements.
\<close>

record conversation_boxes =
  promptBoxes :: "string list"
  promptTitles :: "string list"
  responseBoxes :: "string list"
  responseTimeDisplays :: "string list"

definition three_boxes :: "conversation_boxes \<Rightarrow> bool" where
  "three_boxes ui = (length (promptBoxes ui) = 3 \<and> length (promptTitles ui) = 3 \<and>
     length (responseBoxes ui) = 3 \<and> length (responseTimeDisplays ui) = 3)"

record llm_data =
  prompt :: "string option"
  step_title :: "string option"
  response :: "string option"
  elapsed_time :: "string option"

text \<open>
  The three assignments every array receives in \<open>updateConversation\<close>, in the order of
  the source: slot 2 takes slot 1, slot 1 takes slot 0, slot 0 takes the new text.
\<close>

definition shift_in :: "string \<Rightarrow> string list \<Rightarrow> string list" where
  "shift_in v xs = ((xs[2 := xs ! 1])[1 := xs ! 0])[0 := v]"

definition updateConversation :: "llm_data \<Rightarrow> conversation_boxes \<Rightarrow> conversation_boxes" where
  "updateConversation d ui =
     \<lparr>promptBoxes = shift_in (text_of (prompt d)) (promptBoxes ui),
      promptTitles = shift_in (''Step: '' @ or_else (step_title d) ''--'') (promptTitles ui),
      responseBoxes = shift_in (text_of (response d)) (responseBoxes ui),
      responseTimeDisplays =
        shift_in (''Time elapsed: '' @ or_else (elapsed_time d) ''--'') (responseTimeDisplays ui)\<rparr>"

text \<open>
  The saved history: four parallel arrays of strings, each of which may be missing
  (\<open>None\<close>). An element that is \<open>null\<close> reads as the empty string under \<open>|| ''\<close> and
  \<open>|| '--'\<close>, and is given as the empty string.
\<close>

record conversation_history =
  prompts :: "string list option"
  responses :: "string list option"
  titles :: "string list option"
  times_list :: "string list option"




text \<open>
  What one slot of the ring shows: prompt, title, response and time of index \<open>i\<close>.
\<close>

definition slot :: "conversation_boxes \<Rightarrow> nat \<Rightarrow> string \<times> string \<times> string \<times> string" where
  "slot ui i = (promptBoxes ui ! i, promptTitles ui ! i, responseBoxes ui ! i,
     responseTimeDisplays ui ! i)"

definition slots :: "conversation_boxes \<Rightarrow> (string \<times> string \<times> string \<times> string) list" where
  "slots ui = map (slot ui) [0 ..< 3]"

text \<open>What an \<open>llm_interaction\<close> payload shows once it is in a slot.\<close>

definition entry_of :: "llm_data \<Rightarrow> string \<times> string \<times> string \<times> string" where
  "entry_of d = (text_of (prompt d), ''Step: '' @ or_else (step_title d) ''--'',
     text_of (response d), ''Time elapsed: '' @ or_else (elapsed_time d) ''--'')"

text \<open>A sequence of \<open>updateConversation\<close> calls, first call first.\<close>

definition push_all :: "llm_data list \<Rightarrow> conversation_boxes \<Rightarrow> conversation_boxes" where
  "push_all ds ui = fold updateConversation ds ui"

section \<open>Pipeline Manager (the variant that tracks \<open>pipelineStates\<close>)\<close>

record pipeline_state =
  components :: "string list"
  currentStep :: int
  isActive :: bool

text \<open>
  One column of a rendered pipeline: the title shows \<open>column_component\<close>, the summary
  element has the id \<open>agentId-component-summary\<close>, its text and whether its class list
  holds \<open>current\<close>.
\<close>

record pipeline_column =
  column_component :: string
  summary_text :: string
  summary_current :: bool

text \<open>
  The element \<open>agent1-pipeline\<close> or \<open>agent2-pipeline\<close>: its content, and whether its own
  class list holds \<open>pipeline-completed\<close>. Both elements belong to the static page and
  are taken to exist.
\<close>

record pipeline_element =
  columns :: "pipeline_column list"
  pipeline_completed :: bool

record pipeline_manager =
  pipelineStates0 :: pipeline_state
  pipelineStates1 :: pipeline_state
  agent1_pipeline :: pipeline_element
  agent2_pipeline :: pipeline_element
  console_warn :: "string list"

text \<open>\<open>this.pipelineStates[agentId]\<close>: the object has the keys 0 and 1 only.\<close>

definition pipelineStates :: "pipeline_manager \<Rightarrow> nat \<Rightarrow> pipeline_state option" where
  "pipelineStates m agentId =
     (if agentId = 0 then Some (pipelineStates0 m)
      else if agentId = 1 then Some (pipelineStates1 m)
      else None)"

definition put_state :: "nat \<Rightarrow> pipeline_state \<Rightarrow> pipeline_manager \<Rightarrow> pipeline_manager" where
  "put_state agentId st m =
     (if agentId = 0 then m\<lparr>pipelineStates0 := st\<rparr>
      else if agentId = 1 then m\<lparr>pipelineStates1 := st\<rparr>
      else m)"

text \<open>\<open>agentId === 0 ? agent1-pipeline : agent2-pipeline\<close>.\<close>

definition pipelineElement :: "pipeline_manager \<Rightarrow> nat \<Rightarrow> pipeline_element" where
  "pipelineElement m agentId = (if agentId = 0 then agent1_pipeline m else agent2_pipeline m)"

definition put_element :: "nat \<Rightarrow> pipeline_element \<Rightarrow> pipeline_manager \<Rightarrow> pipeline_manager" where
  "put_element agentId e m =
     (if agentId = 0 then m\<lparr>agent1_pipeline := e\<rparr> else m\<lparr>agent2_pipeline := e\<rparr>)"

definition warn :: "string \<Rightarrow> pipeline_manager \<Rightarrow> pipeline_manager" where
  "warn msg m = m\<lparr>console_warn := console_warn m @ [msg]\<rparr>"

text \<open>
  The \<open>components\<close> argument of \<open>createPipelineFlow\<close>: \<open>undefined\<close> or \<open>null\<close>, a value
  that is not an array, or an array of stage names.
\<close>

datatype components_arg = Absent | NotArray | StageArray "string list"

definition new_column :: "string \<Rightarrow> pipeline_column" where
  "new_column component =
     \<lparr>column_component = component, summary_text = [], summary_current = False\<rparr>"

text \<open>
  \<open>createPipelineFlow(agentId, components)\<close>, lines 120 to 173. The first assignment to
  \<open>this.pipelineStates[agentId]\<close> throws for an id other than 0 and 1. Setting
  \<open>innerHTML\<close> replaces the children of the pipeline element and leaves its class list.
\<close>

definition createPipelineFlow ::
  "nat \<Rightarrow> components_arg \<Rightarrow> pipeline_manager \<Rightarrow> pipeline_manager outcome" where
  "createPipelineFlow agentId comps m =
     (case comps of
        StageArray cs \<Rightarrow>
          if cs = [] then
            (warn (''Cannot create pipeline flow: Invalid components for agent '' @
               string_of_nat agentId) m, None)
          else if pipelineStates m agentId = None then (m, Some TypeError)
          else
            (let m1 = put_state agentId
                        \<lparr>components = cs, currentStep = 0, isActive = False\<rparr> m
             in (put_element agentId
                   ((pipelineElement m1 agentId)\<lparr>columns := map new_column cs\<rparr>) m1, None))
      | _ \<Rightarrow>
          (warn (''Cannot create pipeline flow: Invalid components for agent '' @
             string_of_nat agentId) m, None))"

text \<open>\<open>Array.prototype.indexOf\<close>: the first position of the value, or \<open>-1\<close>.\<close>

fun indexOf :: "string list \<Rightarrow> string \<Rightarrow> int" where
  "indexOf [] x = - 1"
| "indexOf (y # ys) x =
     (if y = x then 0 else (if indexOf ys x = - 1 then - 1 else indexOf ys x + 1))"

text \<open>
  \<open>document.getElementById(`${agentId}-${stage}-summary`)\<close>. Summary ids start with the
  agent id and end in \<open>-summary\<close>, title ids end in \<open>-title\<close>, and the columns of agent 0
  are all in \<open>agent1-pipeline\<close>, those of agent 1 in \<open>agent2-pipeline\<close>: the element
  found is the first column of that agent's pipeline whose component is the stage.
\<close>

definition has_summary :: "string \<Rightarrow> pipeline_column list \<Rightarrow> bool" where
  "has_summary stage cols = (stage \<in> set (map column_component cols))"

text \<open>The changes \<open>updatePipelineStage\<close> makes to the summary element it found.\<close>

definition mark_current :: "string option \<Rightarrow> pipeline_column \<Rightarrow> pipeline_column" where
  "mark_current summary c =
     (if truthy summary
      then c\<lparr>summary_current := True, summary_text := quoted (the summary)\<rparr>
      else c\<lparr>summary_current := True\<rparr>)"

fun update_first :: "string \<Rightarrow> (pipeline_column \<Rightarrow> pipeline_column) \<Rightarrow>
    pipeline_column list \<Rightarrow> pipeline_column list" where
  "update_first stage f [] = []"
| "update_first stage f (c # cs) =
     (if column_component c = stage then f c # cs else c # update_first stage f cs)"

text \<open>\<open>summaries.forEach(summary => summary.classList.remove('current'))\<close>.\<close>

definition remove_current :: "pipeline_column list \<Rightarrow> pipeline_column list" where
  "remove_current cols = map (\<lambda>c. c\<lparr>summary_current := False\<rparr>) cols"

text \<open>\<open>switchActiveFlag(agentId)\<close>, lines 224 to 248.\<close>

definition switchActiveFlag :: "nat \<Rightarrow> pipeline_manager \<Rightarrow> pipeline_manager outcome" where
  "switchActiveFlag agentId m =
     (case pipelineStates m agentId of
        None \<Rightarrow> (m, Some TypeError)
      | Some pipelineState \<Rightarrow>
          if isActive pipelineState then
            (let m1 = put_state agentId
                        (pipelineState\<lparr>isActive := \<not> isActive pipelineState\<rparr>) m;
                 e = pipelineElement m1 agentId
             in (put_element agentId
                   (e\<lparr>pipeline_completed := \<not> pipeline_completed e\<rparr>) m1, None))
          else (m, None))"

text \<open>
  \<open>updatePipelineStage(agentId, stage, data = {})\<close>, lines 181 to 218; \<open>summary\<close> is
  \<open>data.summary\<close>.
\<close>

definition updatePipelineStage ::
  "nat \<Rightarrow> string option \<Rightarrow> string option \<Rightarrow> pipeline_manager \<Rightarrow> pipeline_manager outcome" where
  "updatePipelineStage agentId stage summary m =
     (if \<not> truthy stage then
        (warn (''Cannot update pipeline stage: No stage provided for agent '' @
           string_of_nat agentId) m, None)
      else
        (case pipelineStates m agentId of
           None \<Rightarrow> (m, Some TypeError)
         | Some pipelineState \<Rightarrow>
             (let stageIndex = indexOf (components pipelineState) (the stage);
                  m1 = (if stageIndex \<noteq> - 1
                        then put_state agentId (pipelineState\<lparr>currentStep := stageIndex\<rparr>) m
                        else m);
                  e = pipelineElement m1 agentId;
                  m2 = put_element agentId (e\<lparr>columns := remove_current (columns e)\<rparr>) m1
              in if has_summary (the stage) (columns e) then
                   (let e2 = pipelineElement m2 agentId;
                        m3 = put_element agentId
                               (e2\<lparr>columns :=
                                  update_first (the stage) (mark_current summary) (columns e2)\<rparr>) m2
                    in if stageIndex = int (length (components pipelineState)) - 1 then
                         (case pipelineStates m3 agentId of
                            None \<Rightarrow> (m3, Some TypeError)
                          | Some st3 \<Rightarrow>
                              switchActiveFlag agentId
                                (put_state agentId (st3\<lparr>isActive := True\<rparr>) m3))
                       else (m3, None))
                 else
                   (warn (''Pipeline stage element not found: '' @ string_of_nat agentId @
                      ''-'' @ the stage @ ''-summary'') m2, None))))"

text \<open>\<open>getActiveFlag(agentId)\<close>: throws for an id other than 0 and 1.\<close>

definition getActiveFlag :: "nat \<Rightarrow> pipeline_manager \<Rightarrow> error + bool" where
  "getActiveFlag agentId m =
     (case pipelineStates m agentId of
        None \<Rightarrow> Inl TypeError
      | Some pipelineState \<Rightarrow> Inr (isActive pipelineState))"

text \<open>The manager as the module creates it, on a page whose pipeline elements are empty.\<close>

definition initial_pipelines :: pipeline_manager where
  "initial_pipelines =
     \<lparr>pipelineStates0 = \<lparr>components = [], currentStep = 0, isActive = False\<rparr>,
      pipelineStates1 = \<lparr>components = [], currentStep = 0, isActive = False\<rparr>,
      agent1_pipeline = \<lparr>columns = [], pipeline_completed = False\<rparr>,
      agent2_pipeline = \<lparr>columns = [], pipeline_completed = False\<rparr>,
      console_warn = []\<rparr>"

text \<open>Calls of the manager's two public operations, and a sequence of them.\<close>

datatype pipeline_call =
  CreatePipelineFlow nat components_arg
  | UpdatePipelineStage nat "string option" "string option"

fun call :: "pipeline_call \<Rightarrow> pipeline_manager \<Rightarrow> pipeline_manager outcome" where
  "call (CreatePipelineFlow agentId comps) m = createPipelineFlow agentId comps m"
| "call (UpdatePipelineStage agentId stage summary) m =
     updatePipelineStage agentId stage summary m"

text \<open>An uncaught throw ends its call only: the next call finds the state it left.\<close>

definition run_calls :: "pipeline_call list \<Rightarrow> pipeline_manager \<Rightarrow> pipeline_manager" where
  "run_calls cs m = fold (\<lambda>c m'. fst (call c m')) cs m"

text \<open>
  A pipeline is built for an agent when the columns rendered are those of the stored
  stage list and the list is not empty: the state \<open>createPipelineFlow\<close> leaves and
  \<open>updatePipelineStage\<close> keeps.
\<close>

definition built :: "nat \<Rightarrow> pipeline_manager \<Rightarrow> bool" where
  "built agentId m =
     (case pipelineStates m agentId of
        None \<Rightarrow> False
      | Some st \<Rightarrow>
          components st \<noteq> [] \<and>
          map column_component (columns (pipelineElement m agentId)) = components st)"

section \<open>Application state and socket event handlers (js/state.js, socket-events.js)\<close>

text \<open>
  \<open>State.agents[id]\<close> is \<open>None\<close> when the object has no such key, and otherwise the
  \<open>name\<close> property of the entry.
\<close>

record app_state =
  conversationActive :: bool
  currentConversationId :: "string option"
  agents :: "nat \<Rightarrow> string option option"

text \<open>Everything the handlers read and write.\<close>

record world =
  conversationMessages :: "message_element list option"
  boxes :: conversation_boxes
  panels :: agent_panels
  manager :: pipeline_manager
  State :: app_state







record message_data =
  sender :: string
  message :: string
  sender_id :: "nat option"

record restore_data =
  agent_states :: "agent_data option list option"
  conversation_history :: "conversation_history option"
  messages :: "message_data list option"


















text \<open>
  A page before any event, with a chat container, every text empty and the state of
  js/state.js.
\<close>

definition blank_panel :: agent_panel where
  "blank_panel = \<lparr>name_text = [], personality_text = [], tension_text = [], goal_text = [],
     tactic_text = [], plan_text = [], interior_text = []\<rparr>"

definition blank_page :: world where
  "blank_page =
     \<lparr>conversationMessages = Some [],
      boxes = \<lparr>promptBoxes = [[], [], []], promptTitles = [[], [], []],
               responseBoxes = [[], [], []], responseTimeDisplays = [[], [], []]\<rparr>,
      panels = \<lparr>agent1 = blank_panel, agent2 = blank_panel\<rparr>,
      manager = initial_pipelines,
      State = \<lparr>conversationActive = False, currentConversationId = None,
                agents = (\<lambda>i. if i = 0 then Some (Some ''Agent 1'')
                               else if i = 1 then Some (Some ''Agent 2'') else None)\<rparr>\<rparr>"

text \<open>No pipeline state has its \<open>isActive\<close> flag set.\<close>

definition inactive :: "pipeline_manager \<Rightarrow> bool" where
  "inactive m = (\<not> isActive (pipelineStates0 m) \<and> \<not> isActive (pipelineStates1 m))"

text \<open>The argument \<open>createPipelineFlow\<close> accepts: an array that is not empty.\<close>

definition valid_components :: "components_arg \<Rightarrow> bool" where
  "valid_components comps = (case comps of StageArray cs \<Rightarrow> cs \<noteq> [] | _ \<Rightarrow> False)"

text \<open>The pipeline of the specification's examples: \<open>createPipeline(0, ['a','b','c'])\<close>.\<close>

definition abc_pipeline :: pipeline_manager where
  "abc_pipeline = fst (createPipelineFlow 0 (StageArray [''a'', ''b'', ''c'']) initial_pipelines)"


text \<open>
  What is stored and rendered of one agent's pipeline, the class \<open>pipeline-completed\<close>
  apart: the pipeline state and the columns.
\<close>

definition stage_view :: "nat \<Rightarrow> pipeline_manager \<Rightarrow> pipeline_state option \<times> pipeline_column list" where
  "stage_view agentId m = (pipelineStates m agentId, columns (pipelineElement m agentId))"



text \<open>
  The payloads on which the restore handler throws: an agent state whose
  \<open>plan.tactics\<close> cannot be joined, or a history without \<open>prompts\<close>, or with at least
  one prompt and without one of the three other arrays.
\<close>

definition history_throws :: "conversation_history option \<Rightarrow> bool" where
  "history_throws ho =
     (case ho of
        None \<Rightarrow> False
      | Some h \<Rightarrow>
          (case prompts h of
             None \<Rightarrow> True
           | Some ps \<Rightarrow>
               ps \<noteq> [] \<and> (titles h = None \<or> responses h = None \<or> times_list h = None)))"


text \<open>
  An agent state that carries every panel field with a value that passes its guard: all
  seven texts of the panel are written.
\<close>

definition panel_complete :: "agent_data \<Rightarrow> bool" where
  "panel_complete d =
     (truthy (name d) \<and> truthy (personality d) \<and> tension d \<noteq> None \<and>
      (truthy (goal d) \<or> truthy (plan_field plan_goal d)) \<and>
      truthy (plan_field plan_active_tactic d) \<and>
      (case plan_field plan_tactics d of Some (TacticsArray ts) \<Rightarrow> True | _ \<Rightarrow> False) \<and>
      (case interior d of
         None \<Rightarrow> False
       | Some (InteriorString s) \<Rightarrow> s \<noteq> []
       | Some (InteriorObject pr) \<Rightarrow> True))"


text \<open>A history that fills all three slots: four arrays, at least three prompts.\<close>

definition history_complete :: "conversation_history option \<Rightarrow> bool" where
  "history_complete ho =
     (case ho of
        None \<Rightarrow> False
      | Some h \<Rightarrow>
          (case prompts h of
             None \<Rightarrow> False
           | Some ps \<Rightarrow>
               3 \<le> length ps \<and> titles h \<noteq> None \<and> responses h \<noteq> None \<and>
               times_list h \<noteq> None))"









section \<open>Agent State Reconciler: what a patch overwrites\<close>

lemma set_name_fields:
  "name_text (set_name d a) =
     (if truthy (name d) then the (name d) else name_text a)"
  "personality_text (set_name d a) = personality_text a"
  "tension_text (set_name d a) = tension_text a"
  "goal_text (set_name d a) = goal_text a"
  "tactic_text (set_name d a) = tactic_text a"
  "plan_text (set_name d a) = plan_text a"
  "interior_text (set_name d a) = interior_text a"
  by (simp_all add: set_name_def)

lemma set_personality_fields:
  "personality_text (set_personality d a) =
     (if truthy (personality d) then the (personality d) else personality_text a)"
  "name_text (set_personality d a) = name_text a"
  "tension_text (set_personality d a) = tension_text a"
  "goal_text (set_personality d a) = goal_text a"
  "tactic_text (set_personality d a) = tactic_text a"
  "plan_text (set_personality d a) = plan_text a"
  "interior_text (set_personality d a) = interior_text a"
  by (simp_all add: set_personality_def)

lemma set_tension_fields:
  "tension_text (set_tension d a) =
     (case tension d of Some v \<Rightarrow> text_content v | None \<Rightarrow> tension_text a)"
  "name_text (set_tension d a) = name_text a"
  "personality_text (set_tension d a) = personality_text a"
  "goal_text (set_tension d a) = goal_text a"
  "tactic_text (set_tension d a) = tactic_text a"
  "plan_text (set_tension d a) = plan_text a"
  "interior_text (set_tension d a) = interior_text a"
  by (simp_all add: set_tension_def split: option.splits)

lemma set_goal_fields:
  "goal_text (set_goal d a) =
     (if truthy (goal d) then the (goal d)
      else if truthy (plan_field plan_goal d) then the (plan_field plan_goal d)
      else goal_text a)"
  "name_text (set_goal d a) = name_text a"
  "personality_text (set_goal d a) = personality_text a"
  "tension_text (set_goal d a) = tension_text a"
  "tactic_text (set_goal d a) = tactic_text a"
  "plan_text (set_goal d a) = plan_text a"
  "interior_text (set_goal d a) = interior_text a"
  by (simp_all add: set_goal_def)

lemma set_tactic_fields:
  "tactic_text (set_tactic d a) =
     (if truthy (plan_field plan_active_tactic d) then the (plan_field plan_active_tactic d)
      else tactic_text a)"
  "name_text (set_tactic d a) = name_text a"
  "personality_text (set_tactic d a) = personality_text a"
  "tension_text (set_tactic d a) = tension_text a"
  "goal_text (set_tactic d a) = goal_text a"
  "plan_text (set_tactic d a) = plan_text a"
  "interior_text (set_tactic d a) = interior_text a"
  by (simp_all add: set_tactic_def)

lemma set_plan_fields:
  "plan_text (fst (set_plan d a)) =
     (case plan_field plan_tactics d of
        Some (TacticsArray ts) \<Rightarrow> join '', '' ts
      | _ \<Rightarrow> plan_text a)"
  "name_text (fst (set_plan d a)) = name_text a"
  "personality_text (fst (set_plan d a)) = personality_text a"
  "tension_text (fst (set_plan d a)) = tension_text a"
  "goal_text (fst (set_plan d a)) = goal_text a"
  "tactic_text (fst (set_plan d a)) = tactic_text a"
  "interior_text (fst (set_plan d a)) = interior_text a"
  by (simp_all add: set_plan_def split: option.splits tactics_value.splits)

lemma set_plan_throws:
  "snd (set_plan d a) = (if update_throws d then Some TypeError else None)"
  by (simp add: set_plan_def update_throws_def split: option.splits tactics_value.splits)

lemma set_interior_fields:
  "interior_text (set_interior d a) =
     (case interior d of
        None \<Rightarrow> interior_text a
      | Some (InteriorString s) \<Rightarrow> (if s \<noteq> [] then s else interior_text a)
      | Some (InteriorObject pr) \<Rightarrow> or_else pr ''--'')"
  "name_text (set_interior d a) = name_text a"
  "personality_text (set_interior d a) = personality_text a"
  "tension_text (set_interior d a) = tension_text a"
  "goal_text (set_interior d a) = goal_text a"
  "tactic_text (set_interior d a) = tactic_text a"
  "plan_text (set_interior d a) = plan_text a"
  by (simp_all add: set_interior_def split: option.splits interior_data.splits)

lemma and_then_returns: "snd r = None \<Longrightarrow> and_then r f = f (fst r)"
  by (cases r) (simp add: and_then_def)

lemma and_then_throws: "snd r = Some e \<Longrightarrow> and_then r f = r"
  by (cases r) (simp add: and_then_def)

lemma update_panel_throws:
  "snd (update_panel d a) = (if update_throws d then Some TypeError else None)"
  by (simp add: update_panel_def and_then_returns and_then_throws set_plan_throws)

lemma update_panel_fst:
  "fst (update_panel d a) =
     (if update_throws d
      then fst (set_plan d (set_tactic d (set_goal d (set_tension d
             (set_personality d (set_name d a))))))
      else set_interior d (fst (set_plan d (set_tactic d (set_goal d (set_tension d
             (set_personality d (set_name d a))))))))"
  by (simp add: update_panel_def and_then_returns and_then_throws set_plan_throws)

lemma update_panel_fields:
  "name_text (fst (update_panel d a)) = (if truthy (name d) then the (name d) else name_text a)"
  "personality_text (fst (update_panel d a)) =
     (if truthy (personality d) then the (personality d) else personality_text a)"
  "tension_text (fst (update_panel d a)) =
     (case tension d of Some v \<Rightarrow> text_content v | None \<Rightarrow> tension_text a)"
  "goal_text (fst (update_panel d a)) =
     (if truthy (goal d) then the (goal d)
      else if truthy (plan_field plan_goal d) then the (plan_field plan_goal d)
      else goal_text a)"
  "tactic_text (fst (update_panel d a)) =
     (if truthy (plan_field plan_active_tactic d) then the (plan_field plan_active_tactic d)
      else tactic_text a)"
  "plan_text (fst (update_panel d a)) =
     (case plan_field plan_tactics d of
        Some (TacticsArray ts) \<Rightarrow> join '', '' ts
      | _ \<Rightarrow> plan_text a)"
  "interior_text (fst (update_panel d a)) =
     (if update_throws d then interior_text a
      else case interior d of
             None \<Rightarrow> interior_text a
           | Some (InteriorString s) \<Rightarrow> (if s \<noteq> [] then s else interior_text a)
           | Some (InteriorObject pr) \<Rightarrow> or_else pr ''--'')"
  by (cases "update_throws d";
      simp only: update_panel_fst set_name_fields set_personality_fields
        set_tension_fields set_goal_fields set_tactic_fields set_plan_fields
        set_interior_fields if_True if_False)+

lemma panel_of_updateAgentInfo:
  "panel_of agentId (fst (updateAgentInfo agentId d ps)) =
     fst (update_panel d (panel_of agentId ps))"
  by (simp add: panel_of_def updateAgentInfo_def case_prod_beta)

lemma updateAgentInfo_throws:
  "snd (updateAgentInfo agentId d ps) = (if update_throws d then Some TypeError else None)"
  by (simp add: updateAgentInfo_def case_prod_beta update_panel_throws)

lemma updateAgentInfo_frame:
  "agent2 (fst (updateAgentInfo 0 d ps)) = agent2 ps"
  "agent1 (fst (updateAgentInfo (Suc k) d ps)) = agent1 ps"
  by (simp_all add: updateAgentInfo_def case_prod_beta)


lemma updateAgentInfo_alias: "updateAgentInfo (Suc k) d ps = updateAgentInfo 1 d ps"
  by (simp add: updateAgentInfo_def)

lemma set_direct:
  "set_name (d\<lparr>active_tactic := x, tactics := y\<rparr>) = set_name d"
  "set_personality (d\<lparr>active_tactic := x, tactics := y\<rparr>) = set_personality d"
  "set_tension (d\<lparr>active_tactic := x, tactics := y\<rparr>) = set_tension d"
  "set_goal (d\<lparr>active_tactic := x, tactics := y\<rparr>) = set_goal d"
  "set_tactic (d\<lparr>active_tactic := x, tactics := y\<rparr>) = set_tactic d"
  "set_plan (d\<lparr>active_tactic := x, tactics := y\<rparr>) = set_plan d"
  "set_interior (d\<lparr>active_tactic := x, tactics := y\<rparr>) = set_interior d"
  by (simp_all add: fun_eq_iff set_name_def set_personality_def
        set_tension_def set_goal_def set_tactic_def set_plan_def set_interior_def plan_field_def
        cong: if_cong)

lemma updateAgentInfo_direct:
  "updateAgentInfo agentId (d\<lparr>active_tactic := x, tactics := y\<rparr>) ps =
     updateAgentInfo agentId d ps"
  by (simp add: updateAgentInfo_def update_panel_def set_direct)

lemma set_no_data:
  "set_name no_data a = a" "set_personality no_data a = a" "set_tension no_data a = a"
  "set_goal no_data a = a" "set_tactic no_data a = a" "set_plan no_data a = (a, None)"
  "set_interior no_data a = a"
  by (simp_all add: set_name_def set_personality_def
          set_tension_def set_goal_def set_tactic_def set_plan_def set_interior_def
          no_data_def truthy_def plan_field_def)

lemma updateAgentInfo_no_data: "updateAgentInfo agentId no_data ps = (ps, None)"
  by (simp add: updateAgentInfo_def update_panel_def set_no_data and_then_def)

lemma no_data_throws:
  "update_throws (no_data\<lparr>goal := g\<rparr>) = False"
  "update_throws (no_data\<lparr>tension := t\<rparr>) = False"
  by (simp_all add: update_throws_def no_data_def plan_field_def)

text \<open>
  C2, as the claim states it, fails: a patch that carries \<open>goal\<close> as the empty string
  carries the field, and \<open>updateAgentInfo\<close> leaves the goal shown at its prior value
  \<open>x\<close>. The guard is \<open>if (data.goal)\<close>: truthiness decides, not presence.
\<close>

theorem patch_presence_counterexample:
  "goal (no_data\<lparr>goal := Some []\<rparr>) \<noteq> None \<and>
   goal_text (panel_of 0 (fst (updateAgentInfo 0 (no_data\<lparr>goal := Some []\<rparr>)
      \<lparr>agent1 = blank_panel\<lparr>goal_text := ''x''\<rparr>, agent2 = blank_panel\<rparr>)))
     \<noteq> the (goal (no_data\<lparr>goal := Some []\<rparr>))"
  by (simp add: panel_of_updateAgentInfo update_panel_fields)
     (simp add: no_data_def panel_of_def truthy_def plan_field_def blank_panel_def)

text \<open>
  C2, amended: for every agent id and every patch, \<open>updateAgentInfo\<close> writes one panel
  only, and in it only fields the patch carries; every other field keeps its prior text.
  The panel is \<open>agent1\<close> for id 0 and \<open>agent2\<close> for every other id: an id of 2 or more
  has no panel of its own and is written into the panel of agent 1. Presence decides for
  \<open>tension\<close> alone: every value but \<open>undefined\<close> is applied, a tension of 0 is shown as
  \<open>0\<close> and a \<open>null\<close> tension blanks the field. \<open>name\<close>, \<open>personality\<close>, \<open>goal\<close>, the
  fields under \<open>plan\<close> and a string \<open>interior\<close> are written only when they are truthy,
  so an empty string counts as absent. A \<open>plan.tactics\<close> that is truthy and not an array
  makes the call throw once the fields before it are written; \<open>interior\<close> is then not
  written. A patch \<open>{tension: 5}\<close> followed by a patch \<open>{goal: 'x'}\<close> leaves the tension
  shown as \<open>5\<close> and the goal as \<open>x\<close>.
\<close>

theorem patch_non_destructive:
  "name_text (panel_of agentId (fst (updateAgentInfo agentId d ps))) =
     (if truthy (name d) then the (name d) else name_text (panel_of agentId ps)) \<and>
   personality_text (panel_of agentId (fst (updateAgentInfo agentId d ps))) =
     (if truthy (personality d) then the (personality d)
      else personality_text (panel_of agentId ps)) \<and>
   tension_text (panel_of agentId (fst (updateAgentInfo agentId d ps))) =
     (case tension d of Some v \<Rightarrow> text_content v
      | None \<Rightarrow> tension_text (panel_of agentId ps)) \<and>
   goal_text (panel_of agentId (fst (updateAgentInfo agentId d ps))) =
     (if truthy (goal d) then the (goal d)
      else if truthy (plan_field plan_goal d) then the (plan_field plan_goal d)
      else goal_text (panel_of agentId ps)) \<and>
   tactic_text (panel_of agentId (fst (updateAgentInfo agentId d ps))) =
     (if truthy (plan_field plan_active_tactic d) then the (plan_field plan_active_tactic d)
      else tactic_text (panel_of agentId ps)) \<and>
   plan_text (panel_of agentId (fst (updateAgentInfo agentId d ps))) =
     (case plan_field plan_tactics d of
        Some (TacticsArray ts) \<Rightarrow> join '', '' ts
      | _ \<Rightarrow> plan_text (panel_of agentId ps)) \<and>
   interior_text (panel_of agentId (fst (updateAgentInfo agentId d ps))) =
     (if update_throws d then interior_text (panel_of agentId ps)
      else case interior d of
             None \<Rightarrow> interior_text (panel_of agentId ps)
           | Some (InteriorString s) \<Rightarrow>
               (if s \<noteq> [] then s else interior_text (panel_of agentId ps))
           | Some (InteriorObject pr) \<Rightarrow> or_else pr ''--'') \<and>
   snd (updateAgentInfo agentId d ps) = (if update_throws d then Some TypeError else None) \<and>
   panel_of 0 ps = agent1 ps \<and>
   panel_of (Suc k) ps = agent2 ps \<and>
   agent2 (fst (updateAgentInfo 0 d ps)) = agent2 ps \<and>
   agent1 (fst (updateAgentInfo (Suc k) d ps)) = agent1 ps \<and>
   updateAgentInfo (Suc k) d ps = updateAgentInfo 1 d ps \<and>
   updateAgentInfo agentId no_data ps = (ps, None) \<and>
   tension_text (panel_of agentId
     (fst (updateAgentInfo agentId (no_data\<lparr>goal := Some ''x''\<rparr>)
        (fst (updateAgentInfo agentId (no_data\<lparr>tension := Some (Number ''5'')\<rparr>) ps))))) = ''5'' \<and>
   goal_text (panel_of agentId
     (fst (updateAgentInfo agentId (no_data\<lparr>goal := Some ''x''\<rparr>)
        (fst (updateAgentInfo agentId (no_data\<lparr>tension := Some (Number ''5'')\<rparr>) ps))))) = ''x'' \<and>
   tension_text (panel_of agentId
     (fst (updateAgentInfo agentId (no_data\<lparr>tension := Some (Number ''0'')\<rparr>) ps))) = ''0'' \<and>
   tension_text (panel_of agentId
     (fst (updateAgentInfo agentId (no_data\<lparr>tension := Some Null\<rparr>) ps))) = []"
proof -
  have fields: "name_text (panel_of agentId (fst (updateAgentInfo agentId d ps))) =
      (if truthy (name d) then the (name d) else name_text (panel_of agentId ps)) \<and>
    personality_text (panel_of agentId (fst (updateAgentInfo agentId d ps))) =
      (if truthy (personality d) then the (personality d)
       else personality_text (panel_of agentId ps)) \<and>
    tension_text (panel_of agentId (fst (updateAgentInfo agentId d ps))) =
      (case tension d of Some v \<Rightarrow> text_content v
       | None \<Rightarrow> tension_text (panel_of agentId ps)) \<and>
    goal_text (panel_of agentId (fst (updateAgentInfo agentId d ps))) =
      (if truthy (goal d) then the (goal d)
       else if truthy (plan_field plan_goal d) then the (plan_field plan_goal d)
       else goal_text (panel_of agentId ps)) \<and>
    tactic_text (panel_of agentId (fst (updateAgentInfo agentId d ps))) =
      (if truthy (plan_field plan_active_tactic d) then the (plan_field plan_active_tactic d)
       else tactic_text (panel_of agentId ps)) \<and>
    plan_text (panel_of agentId (fst (updateAgentInfo agentId d ps))) =
      (case plan_field plan_tactics d of
         Some (TacticsArray ts) \<Rightarrow> join '', '' ts
       | _ \<Rightarrow> plan_text (panel_of agentId ps)) \<and>
    interior_text (panel_of agentId (fst (updateAgentInfo agentId d ps))) =
      (if update_throws d then interior_text (panel_of agentId ps)
       else case interior d of
              None \<Rightarrow> interior_text (panel_of agentId ps)
            | Some (InteriorString s) \<Rightarrow>
                (if s \<noteq> [] then s else interior_text (panel_of agentId ps))
            | Some (InteriorObject pr) \<Rightarrow> or_else pr ''--'')"
    by (simp only: panel_of_updateAgentInfo update_panel_fields simp_thms)
  have p0: "panel_of 0 ps = agent1 ps" and pk: "panel_of (Suc k) ps = agent2 ps"
    by (simp_all add: panel_of_def)
  have t5: "tension_text (panel_of agentId
     (fst (updateAgentInfo agentId (no_data\<lparr>goal := Some ''x''\<rparr>)
        (fst (updateAgentInfo agentId (no_data\<lparr>tension := Some (Number ''5'')\<rparr>) ps))))) = ''5''"
    by (simp add: panel_of_updateAgentInfo update_panel_fields no_data_def text_content_def)
  have gx: "goal_text (panel_of agentId
     (fst (updateAgentInfo agentId (no_data\<lparr>goal := Some ''x''\<rparr>)
        (fst (updateAgentInfo agentId (no_data\<lparr>tension := Some (Number ''5'')\<rparr>) ps))))) = ''x''"
    by (simp add: panel_of_updateAgentInfo update_panel_fields no_data_def truthy_def)
  have t0: "tension_text (panel_of agentId
     (fst (updateAgentInfo agentId (no_data\<lparr>tension := Some (Number ''0'')\<rparr>) ps))) = ''0''"
    by (simp add: panel_of_updateAgentInfo update_panel_fields no_data_def text_content_def)
  have tn: "tension_text (panel_of agentId
     (fst (updateAgentInfo agentId (no_data\<lparr>tension := Some Null\<rparr>) ps))) = []"
    by (simp add: panel_of_updateAgentInfo update_panel_fields no_data_def text_content_def)
  show ?thesis
    using fields updateAgentInfo_throws [of agentId d ps] p0 pk
      updateAgentInfo_frame(1) [of d ps] updateAgentInfo_frame(2) [of k d ps]
      updateAgentInfo_alias [of k d ps] updateAgentInfo_no_data [of agentId ps] t5 gx t0 tn
    by (elim conjE, intro conjI) assumption+
qed

text \<open>
  C7, as the claim states it, fails: with \<open>goal: ''\<close> and \<open>plan: {goal: 'y'}\<close> the
  patch carries \<open>goal\<close>, and the goal shown becomes \<open>y\<close>, the value under \<open>plan\<close>.
\<close>

theorem goal_presence_counterexample:
  "goal (no_data\<lparr>goal := Some [], plan := Some (no_plan\<lparr>plan_goal := Some ''y''\<rparr>)\<rparr>) \<noteq> None \<and>
   goal_text (panel_of 0
      (fst (updateAgentInfo 0
         (no_data\<lparr>goal := Some [], plan := Some (no_plan\<lparr>plan_goal := Some ''y''\<rparr>)\<rparr>)
         \<lparr>agent1 = blank_panel, agent2 = blank_panel\<rparr>))) = ''y''"
  by (simp add: panel_of_updateAgentInfo update_panel_fields)
     (simp add: no_data_def no_plan_def panel_of_def truthy_def plan_field_def blank_panel_def)

text \<open>
  C7, amended: for every patch applied by \<open>updateAgentInfo\<close>, if \<open>patch.goal\<close> is truthy
  (present and not the empty string) it is the goal shown; otherwise if \<open>patch.plan.goal\<close>
  is truthy that value is shown; otherwise the goal shown is unchanged.
\<close>

theorem goal_resolution:
  "goal_text (panel_of agentId (fst (updateAgentInfo agentId d ps))) =
     (if truthy (goal d) then the (goal d)
      else if truthy (plan_field plan_goal d) then the (plan_field plan_goal d)
      else goal_text (panel_of agentId ps))"
  by (simp add: panel_of_updateAgentInfo update_panel_fields)

text \<open>
  C8, as the claim states it, fails: a patch whose only field is a direct
  \<open>active_tactic\<close> leaves the tactic shown as it was, and when both are given the value
  under \<open>plan\<close> is shown, not the direct one. \<open>updateAgentInfo\<close> reads
  \<open>data.plan?.active_tactic\<close> and \<open>data.plan?.tactics\<close> only.
\<close>

theorem tactic_direct_counterexample:
  "tactic_text (panel_of 0
      (fst (updateAgentInfo 0 (no_data\<lparr>active_tactic := Some ''x''\<rparr>)
         \<lparr>agent1 = blank_panel\<lparr>tactic_text := ''old''\<rparr>, agent2 = blank_panel\<rparr>))) = ''old'' \<and>
   tactic_text (panel_of 0
      (fst (updateAgentInfo 0
         (no_data\<lparr>active_tactic := Some ''x'',
                  plan := Some (no_plan\<lparr>plan_active_tactic := Some ''y''\<rparr>)\<rparr>)
         \<lparr>agent1 = blank_panel\<lparr>tactic_text := ''old''\<rparr>, agent2 = blank_panel\<rparr>))) = ''y''"
  by (simp add: panel_of_updateAgentInfo update_panel_fields)
     (simp add: no_data_def no_plan_def panel_of_def truthy_def plan_field_def blank_panel_def)

text \<open>
  C8, amended: for every patch applied by \<open>updateAgentInfo\<close>, the active tactic and the
  tactic list are taken from the fields nested under \<open>plan\<close> only: a truthy
  \<open>plan.active_tactic\<close> is the tactic shown, a \<open>plan.tactics\<close> array is shown joined by
  \<open>", "\<close>, and without them the value shown is unchanged. Fields \<open>active_tactic\<close> and
  \<open>tactics\<close> directly on the patch change nothing.
\<close>

theorem tactic_resolution:
  "tactic_text (panel_of agentId (fst (updateAgentInfo agentId d ps))) =
     (if truthy (plan_field plan_active_tactic d) then the (plan_field plan_active_tactic d)
      else tactic_text (panel_of agentId ps)) \<and>
   plan_text (panel_of agentId (fst (updateAgentInfo agentId d ps))) =
     (case plan_field plan_tactics d of
        Some (TacticsArray ts) \<Rightarrow> join '', '' ts
      | _ \<Rightarrow> plan_text (panel_of agentId ps)) \<and>
   updateAgentInfo agentId (d\<lparr>active_tactic := direct_tactic, tactics := direct_list\<rparr>) ps =
     updateAgentInfo agentId d ps \<and>
   join '', '' [''a'', ''b'', ''c''] = ''a, b, c''"
  by (simp add: panel_of_updateAgentInfo update_panel_fields updateAgentInfo_direct)

section \<open>Chat Log: system messages\<close>

text \<open>
  C4, as the claim states it, fails: \<open>addMessage('System', 'hello')\<close> on an empty chat
  leaves the chat empty; its length does not grow by one. There is no log besides the
  children of the chat container.
\<close>

theorem system_message_counterexample:
  "chat_length (addMessage ''System'' ''hello'' None no_extra (Some [])) \<noteq>
     chat_length (Some []) + 1"
  by (simp add: addMessage_def chat_length_def)

text \<open>
  C4, amended: for every call of \<open>addMessage\<close> with sender \<open>System\<close> the chat is left
  exactly as it was: the message is neither stored nor rendered, and the number of
  messages held does not change.
\<close>

theorem system_message_dropped:
  "addMessage ''System'' msg_text senderId extra chat = chat \<and>
   chat_length (addMessage ''System'' msg_text senderId extra chat) = chat_length chat"
  by (simp add: addMessage_def split: option.splits)

section \<open>Conversation History Ring\<close>

lemma three_boxes_updateConversation:
  "three_boxes ui \<Longrightarrow> three_boxes (updateConversation d ui)"
  by (simp add: three_boxes_def updateConversation_def shift_in_def)

lemma three_boxes_push_all: "three_boxes ui \<Longrightarrow> three_boxes (push_all ds ui)"
  by (induction ds arbitrary: ui) (simp_all add: push_all_def three_boxes_updateConversation)

lemma shift_in_three: "length xs = 3 \<Longrightarrow> shift_in v xs = [v, xs ! 0, xs ! 1]"
  by (cases xs rule: list.exhaust; simp add: shift_in_def;
      rename_tac a as; case_tac as; simp; rename_tac b bs; case_tac bs; simp)

lemma slots_updateConversation:
  "three_boxes ui \<Longrightarrow> slots (updateConversation d ui) = entry_of d # take 2 (slots ui)"
  by (simp add: three_boxes_def updateConversation_def shift_in_three slots_def slot_def
        entry_of_def upt_rec numeral_3_eq_3 numeral_2_eq_2)

lemma take3_shift: "take 3 (as @ e # take 2 ss) = take 3 (as @ e # ss)"
  by (cases as; simp; rename_tac a as1; case_tac as1; simp; rename_tac b as2; case_tac as2; simp)

lemma slots_push_all:
  "three_boxes ui \<Longrightarrow> slots (push_all ds ui) = take 3 (map entry_of (rev ds) @ slots ui)"
proof (induction ds arbitrary: ui)
  case Nil
  then show ?case by (simp add: push_all_def slots_def)
next
  case (Cons d ds)
  have "slots (push_all (d # ds) ui) = slots (push_all ds (updateConversation d ui))"
    by (simp add: push_all_def)
  also have "\<dots> = take 3 (map entry_of (rev ds) @ slots (updateConversation d ui))"
    using Cons.IH [OF three_boxes_updateConversation [OF Cons.prems]] .
  also have "\<dots> = take 3 (map entry_of (rev ds) @ entry_of d # slots ui)"
    by (simp only: slots_updateConversation [OF Cons.prems] take3_shift)
  finally show ?case by simp
qed

text \<open>
  C5: on the three boxes of the page, one \<open>updateConversation\<close> puts the new entry in
  slot 0, the former slot 0 in slot 1, the former slot 1 in slot 2, and the former slot 2
  is gone. After any sequence \<open>ds\<close> of pushes the first \<open>min 3 (length ds)\<close> slots are
  the last pushes, newest first, the other slots still show what the page showed before
  the first push, and slot 0 is the entry pushed last.
\<close>

theorem ring_invariant:
  assumes "three_boxes ui"
  shows "three_boxes (push_all ds ui) \<and>
     slots (updateConversation d ui) = [entry_of d, slot ui 0, slot ui 1] \<and>
     take (min 3 (length ds)) (slots (push_all ds ui)) = map entry_of (take 3 (rev ds)) \<and>
     drop (min 3 (length ds)) (slots (push_all ds ui)) = take (3 - length ds) (slots ui) \<and>
     slot (push_all (ds @ [d]) ui) 0 = entry_of d"
proof -
  have a: "three_boxes (push_all ds ui)"
    by (rule three_boxes_push_all [OF assms])
  have s: "slots (push_all es ui) = take 3 (map entry_of (rev es) @ slots ui)" for es
    by (rule slots_push_all [OF assms])
  have l: "length (slots ui) = 3" by (simp add: slots_def)
  have b: "slots (updateConversation d ui) = [entry_of d, slot ui 0, slot ui 1]"
    by (simp add: slots_updateConversation [OF assms]) (simp add: slots_def upt_rec numeral_2_eq_2)
  have c: "take (min 3 (length ds)) (slots (push_all ds ui)) = map entry_of (take 3 (rev ds))"
    by (simp add: s take_map min_def)
  have d: "drop (min 3 (length ds)) (slots (push_all ds ui)) = take (3 - length ds) (slots ui)"
    by (simp add: s l min_def drop_take)
  have "slots (push_all (ds @ [d]) ui) ! 0 = entry_of d"
    by (simp add: s)
  then have e: "slot (push_all (ds @ [d]) ui) 0 = entry_of d"
    by (simp add: slots_def upt_rec)
  from a b c d e show ?thesis by blast
qed

theorem ring_invariant_witness:
  "three_boxes (boxes blank_page) \<and>
   slots (updateConversation
            \<lparr>prompt = Some ''p'', step_title = None, response = Some ''r'',
             elapsed_time = Some ''1.5''\<rparr> (boxes blank_page)) =
     [(''p'', ''Step: --'', ''r'', ''Time elapsed: 1.5''), ([], [], [], []), ([], [], [], [])]"
proof -
  have h: "three_boxes (boxes blank_page)"
    by (simp add: three_boxes_def blank_page_def)
  show ?thesis
    using h ring_invariant [OF h, of "[]"
        "\<lparr>prompt = Some ''p'', step_title = None, response = Some ''r'',
          elapsed_time = Some ''1.5''\<rparr>"]
    by (simp add: entry_of_def slot_def blank_page_def text_of_def or_else_def truthy_def)
qed

section \<open>Pipeline State Machine: stages\<close>

lemma indexOf_range: "- 1 \<le> indexOf xs x \<and> indexOf xs x < int (length xs)"
  by (induction xs) auto

lemma indexOf_notin: "indexOf xs x = - 1 \<longleftrightarrow> x \<notin> set xs"
proof (induction xs)
  case Nil
  then show ?case by simp
next
  case (Cons y ys)
  have "- 1 \<le> indexOf ys x" using indexOf_range [of ys x] by simp
  with Cons show ?case by auto
qed

lemma indexOf_last:
  "xs \<noteq> [] \<Longrightarrow> indexOf xs x = int (length xs) - 1 \<Longrightarrow> last xs = x \<and> x \<notin> set (butlast xs)"
proof (induction xs)
  case Nil
  then show ?case by simp
next
  case (Cons y ys)
  show ?case
  proof (cases "ys = []")
    case True
    with Cons.prems show ?thesis by (auto split: if_splits)
  next
    case False
    from Cons.prems(2) have ne: "y \<noteq> x"
      using False by (auto split: if_splits)
    with Cons.prems(2) have "indexOf ys x = int (length ys) - 1"
      by (auto split: if_splits)
    with Cons.IH False have "last ys = x \<and> x \<notin> set (butlast ys)" by simp
    with ne False show ?thesis by simp
  qed
qed

lemma components_update_first:
  "map column_component (update_first s (mark_current sm) cols) = map column_component cols"
  by (induction cols) (simp_all add: mark_current_def)

lemma components_remove_current:
  "map column_component (remove_current cols) = map column_component cols"
  by (simp add: remove_current_def)

lemma has_summary_remove_current: "has_summary s (remove_current cols) = has_summary s cols"
  by (simp add: has_summary_def components_remove_current)

lemma current_update_first_last:
  "cols \<noteq> [] \<Longrightarrow> column_component (last cols) = s \<Longrightarrow>
   s \<notin> set (map column_component (butlast cols)) \<Longrightarrow>
   map summary_current (update_first s (mark_current sm) (remove_current cols)) =
     replicate (length cols - 1) False @ [True]"
proof (induction cols)
  case Nil
  then show ?case by simp
next
  case (Cons c cs)
  show ?case
  proof (cases "cs = []")
    case True
    with Cons.prems show ?thesis by (simp add: remove_current_def mark_current_def)
  next
    case False
    with Cons.prems have "column_component c \<noteq> s" by auto
    moreover from Cons.prems False
    have "map summary_current (update_first s (mark_current sm) (remove_current cs)) =
       replicate (length cs - 1) False @ [True]"
      by (intro Cons.IH) auto
    ultimately show ?thesis using False
      by (cases cs) (simp_all add: remove_current_def)
  qed
qed

lemma texts_update_first:
  "map summary_text (update_first s (mark_current None) cols) = map summary_text cols"
  by (induction cols) (simp_all add: mark_current_def truthy_def)

lemma known_id: "pipelineStates m agentId = Some st \<Longrightarrow> agentId = 0 \<or> agentId = 1"
  by (simp add: pipelineStates_def split: if_splits)

lemma updatePipelineStage_found:
  assumes "pipelineStates m agentId = Some st" and "s \<noteq> []"
    and "has_summary s (columns (pipelineElement m agentId))"
  shows "updatePipelineStage agentId (Some s) summary m =
    (put_element agentId
       \<lparr>columns = update_first s (mark_current summary)
                    (remove_current (columns (pipelineElement m agentId))),
        pipeline_completed =
          (if indexOf (components st) s = int (length (components st)) - 1
           then \<not> pipeline_completed (pipelineElement m agentId)
           else pipeline_completed (pipelineElement m agentId))\<rparr>
       (put_state agentId
          \<lparr>components = components st,
           currentStep = (if indexOf (components st) s \<noteq> - 1
                          then indexOf (components st) s else currentStep st),
           isActive = (if indexOf (components st) s = int (length (components st)) - 1
                       then False else isActive st)\<rparr> m), None)"
proof -
  from known_id [OF assms(1)] show ?thesis
  proof
    assume "agentId = 0"
    with assms show ?thesis
      by (simp add: updatePipelineStage_def switchActiveFlag_def Let_def truthy_def
            pipelineStates_def pipelineElement_def put_state_def put_element_def)
  next
    assume "agentId = 1"
    with assms show ?thesis
      by (simp add: updatePipelineStage_def switchActiveFlag_def Let_def truthy_def
            pipelineStates_def pipelineElement_def put_state_def put_element_def)
  qed
qed

lemma updatePipelineStage_not_found:
  assumes "pipelineStates m agentId = Some st" and "s \<noteq> []"
    and "\<not> has_summary s (columns (pipelineElement m agentId))"
    and "indexOf (components st) s = - 1"
  shows "updatePipelineStage agentId (Some s) summary m =
    (warn (''Pipeline stage element not found: '' @ string_of_nat agentId @ ''-'' @ s @
             ''-summary'')
       (put_element agentId
          ((pipelineElement m agentId)
             \<lparr>columns := remove_current (columns (pipelineElement m agentId))\<rparr>) m), None)"
proof -
  from known_id [OF assms(1)] show ?thesis
  proof
    assume "agentId = 0"
    with assms show ?thesis
      by (simp add: updatePipelineStage_def Let_def truthy_def
            pipelineStates_def pipelineElement_def put_state_def put_element_def)
  next
    assume "agentId = 1"
    with assms show ?thesis
      by (simp add: updatePipelineStage_def Let_def truthy_def
            pipelineStates_def pipelineElement_def put_state_def put_element_def)
  qed
qed

lemma states_put_state:
  "pipelineStates m a \<noteq> None \<Longrightarrow> pipelineStates (put_state a st m) a = Some st"
  by (simp add: pipelineStates_def put_state_def split: if_splits)

lemma states_put_state_other:
  "a \<noteq> b \<Longrightarrow> pipelineStates (put_state a st m) b = pipelineStates m b"
  by (simp add: pipelineStates_def put_state_def)

lemma states_put_element [simp]: "pipelineStates (put_element a e m) b = pipelineStates m b"
  by (simp add: pipelineStates_def put_element_def)

lemma states_warn [simp]: "pipelineStates (warn msg m) b = pipelineStates m b"
  by (simp add: pipelineStates_def warn_def)

lemma element_put_element [simp]: "pipelineElement (put_element a e m) a = e"
  by (simp add: pipelineElement_def put_element_def)

lemma element_put_element_other:
  "(a = 0) \<noteq> (b = 0) \<Longrightarrow> pipelineElement (put_element a e m) b = pipelineElement m b"
  by (auto simp add: pipelineElement_def put_element_def)

lemma element_put_state [simp]: "pipelineElement (put_state a st m) b = pipelineElement m b"
  by (simp add: pipelineElement_def put_state_def)

lemma element_warn [simp]: "pipelineElement (warn msg m) b = pipelineElement m b"
  by (simp add: pipelineElement_def warn_def)

lemma built_has_summary:
  "built agentId m \<Longrightarrow> pipelineStates m agentId = Some st \<Longrightarrow>
   has_summary s (columns (pipelineElement m agentId)) = (s \<in> set (components st))"
  by (simp add: built_def has_summary_def)

lemma last_stage_step:
  assumes b: "built agentId m" and st: "pipelineStates m agentId = Some st" and s: "s \<noteq> []"
    and i: "indexOf (components st) s = int (length (components st)) - 1"
  shows "snd (updatePipelineStage agentId (Some s) summary m) = None \<and>
    pipelineStates (fst (updatePipelineStage agentId (Some s) summary m)) agentId =
      Some \<lparr>components = components st, currentStep = int (length (components st)) - 1,
            isActive = False\<rparr> \<and>
    pipeline_completed (pipelineElement (fst (updatePipelineStage agentId (Some s) summary m)) agentId) =
      (\<not> pipeline_completed (pipelineElement m agentId)) \<and>
    map summary_current
      (columns (pipelineElement (fst (updatePipelineStage agentId (Some s) summary m)) agentId)) =
      replicate (length (components st) - 1) False @ [True] \<and>
    built agentId (fst (updatePipelineStage agentId (Some s) summary m))"
proof -
  let ?cols = "columns (pipelineElement m agentId)"
  from b st have ne: "components st \<noteq> []" and cc: "map column_component ?cols = components st"
    by (simp_all add: built_def)
  from indexOf_last [OF ne i] have l: "last (components st) = s"
    and nl: "s \<notin> set (butlast (components st))" by simp_all
  from ne l have mem: "s \<in> set (components st)" using last_in_set by blast
  then have hs: "has_summary s ?cols" using built_has_summary [OF b st] by simp
  from ne cc have cne: "?cols \<noteq> []" by auto
  from l cc cne have lc: "column_component (last ?cols) = s" by (metis last_map)
  from nl cc have nlc: "s \<notin> set (map column_component (butlast ?cols))"
    by (metis map_butlast)
  from ne i have ni: "indexOf (components st) s \<noteq> - 1" by (cases "components st") auto
  have len: "length ?cols = length (components st)" using cc by (metis length_map)
  note u = updatePipelineStage_found [OF st s hs, of summary]
  from st have k: "pipelineStates m agentId \<noteq> None" by simp
  show ?thesis
    using ne
    by (simp add: u i ni states_put_state [OF k] current_update_first_last [OF cne lc nlc] len
          built_def components_update_first components_remove_current cc)
qed

text \<open>
  C3: for every built pipeline of an agent and every stage name that is not empty and
  whose position \<open>indexOf\<close> is \<open>stages.length - 1\<close>, \<open>updatePipelineStage\<close> returns
  normally, sets \<open>currentStep\<close> to that last position, leaves the last summary as the
  only one marked \<open>current\<close>, and toggles the class \<open>pipeline-completed\<close> of the pipeline
  element exactly once: the flag after the event is the negation of the flag before, so a
  second such event brings it back to its first value. The pipeline stays built.
\<close>

theorem completion_toggle:
  assumes "built agentId m" and "pipelineStates m agentId = Some st" and "s \<noteq> []"
    and "indexOf (components st) s = int (length (components st)) - 1"
  shows "snd (updatePipelineStage agentId (Some s) summary m) = None \<and>
    pipelineStates (fst (updatePipelineStage agentId (Some s) summary m)) agentId =
      Some \<lparr>components = components st, currentStep = int (length (components st)) - 1,
            isActive = False\<rparr> \<and>
    pipeline_completed (pipelineElement (fst (updatePipelineStage agentId (Some s) summary m)) agentId) =
      (\<not> pipeline_completed (pipelineElement m agentId)) \<and>
    map summary_current
      (columns (pipelineElement (fst (updatePipelineStage agentId (Some s) summary m)) agentId)) =
      replicate (length (components st) - 1) False @ [True] \<and>
    built agentId (fst (updatePipelineStage agentId (Some s) summary m)) \<and>
    pipeline_completed (pipelineElement
        (fst (updatePipelineStage agentId (Some s) summary2
           (fst (updatePipelineStage agentId (Some s) summary m)))) agentId) =
      pipeline_completed (pipelineElement m agentId)"
proof -
  let ?m1 = "fst (updatePipelineStage agentId (Some s) summary m)"
  let ?st1 = "\<lparr>components = components st, currentStep = int (length (components st)) - 1,
            isActive = False\<rparr>"
  note first = last_stage_step [OF assms, of summary]
  then have b1: "built agentId ?m1" and st1: "pipelineStates ?m1 agentId = Some ?st1"
    by simp_all
  have i1: "indexOf (components ?st1) s = int (length (components ?st1)) - 1"
    using assms(4) by simp
  note second = last_stage_step [OF b1 st1 assms(3) i1, of summary2]
  from first second show ?thesis by simp
qed

theorem completion_toggle_witness:
  "built 0 abc_pipeline \<and>
   pipeline_completed (pipelineElement abc_pipeline 0) = False \<and>
   pipeline_completed (pipelineElement
      (fst (updatePipelineStage 0 (Some ''c'') None abc_pipeline)) 0) = True \<and>
   pipeline_completed (pipelineElement
      (fst (updatePipelineStage 0 (Some ''c'') None
         (fst (updatePipelineStage 0 (Some ''c'') None abc_pipeline)))) 0) = False"
proof -
  have h1: "built 0 abc_pipeline" by code_simp
  have h2: "pipelineStates abc_pipeline 0 =
      Some \<lparr>components = [''a'', ''b'', ''c''], currentStep = 0, isActive = False\<rparr>"
    by code_simp
  have h3: "''c'' \<noteq> []" by simp
  have h4: "indexOf (components \<lparr>components = [''a'', ''b'', ''c''], currentStep = 0,
      isActive = False\<rparr>) ''c'' =
      int (length (components \<lparr>components = [''a'', ''b'', ''c''], currentStep = 0,
      isActive = False\<rparr>)) - 1"
    by simp
  have h5: "pipeline_completed (pipelineElement abc_pipeline 0) = False" by code_simp
  from completion_toggle [OF h1 h2 h3 h4, of None None] h1 h5 show ?thesis by simp
qed

text \<open>
  C6, as the claim states it, fails: on the pipeline \<open>a, b, c\<close> of agent 0 with stage
  \<open>b\<close> marked, \<open>updatePipelineStage(0, 'zzz')\<close> removes the mark from every summary.
  The marks are cleared before the stage element is looked up.
\<close>

theorem unknown_stage_counterexample:
  "map summary_current (columns (pipelineElement
      (fst (updatePipelineStage 0 (Some ''b'') None abc_pipeline)) 0)) = [False, True, False] \<and>
   map summary_current (columns (pipelineElement
      (fst (updatePipelineStage 0 (Some ''zzz'') None
         (fst (updatePipelineStage 0 (Some ''b'') None abc_pipeline)))) 0)) =
     [False, False, False]"
  by code_simp

text \<open>
  C6, amended: for every built pipeline and every stage name that is falsy or not a
  member of its stages, \<open>updatePipelineStage\<close> raises no exception, logs one warning and
  leaves every pipeline state (\<open>components\<close>, \<open>currentStep\<close>, \<open>isActive\<close>) unchanged. For a
  falsy name nothing else changes. For a name that is not a member the only other change
  is that the \<open>current\<close> mark is removed from every summary of that agent's pipeline:
  summary texts, the class \<open>pipeline-completed\<close> and the other agent's pipeline stay.
\<close>

theorem unknown_stage_rejected:
  assumes "built agentId m" and "pipelineStates m agentId = Some st"
    and "\<not> truthy stage \<or> the stage \<notin> set (components st)"
  shows "snd (updatePipelineStage agentId stage summary m) = None \<and>
    pipelineStates (fst (updatePipelineStage agentId stage summary m)) =  pipelineStates m \<and>
    length (console_warn (fst (updatePipelineStage agentId stage summary m))) =
      length (console_warn m) + 1 \<and>
    (\<not> truthy stage \<longrightarrow>
       (fst (updatePipelineStage agentId stage summary m))\<lparr>console_warn := console_warn m\<rparr> = m) \<and>
    (truthy stage \<longrightarrow>
       (fst (updatePipelineStage agentId stage summary m))\<lparr>console_warn := console_warn m\<rparr> =
       put_element agentId
         ((pipelineElement m agentId)
            \<lparr>columns := remove_current (columns (pipelineElement m agentId))\<rparr>) m)"
proof (cases "truthy stage")
  case False
  then show ?thesis
    by (simp add: updatePipelineStage_def fun_eq_iff) (simp add: warn_def)
next
  case True
  then obtain s where s: "stage = Some s" "s \<noteq> []"
    by (auto simp add: truthy_def split: option.splits)
  with assms(3) True have nm: "s \<notin> set (components st)" by simp
  then have i: "indexOf (components st) s = - 1" by (simp add: indexOf_notin)
  from nm have hs: "\<not> has_summary s (columns (pipelineElement m agentId))"
    using built_has_summary [OF assms(1,2)] by simp
  note u = updatePipelineStage_not_found [OF assms(2) s(2) hs i, of summary]
  have w: "(warn msg m')\<lparr>console_warn := c\<rparr> = m'\<lparr>console_warn := c\<rparr>" for msg m' c
    by (simp add: warn_def)
  have pe: "(put_element agentId e m)\<lparr>console_warn := console_warn m\<rparr> = put_element agentId e m" for e
    by (simp add: put_element_def)
  show ?thesis
    using True s by (simp add: u w pe fun_eq_iff) (simp add: warn_def put_element_def)
qed

theorem unknown_stage_rejected_witness:
  "built 0 abc_pipeline \<and>
   snd (updatePipelineStage 0 (Some ''zzz'') None abc_pipeline) = None \<and>
   pipelineStates (fst (updatePipelineStage 0 (Some ''zzz'') None abc_pipeline)) =
     pipelineStates abc_pipeline \<and>
   length (console_warn (fst (updatePipelineStage 0 (Some ''zzz'') None abc_pipeline))) = 1"
proof -
  have h1: "built 0 abc_pipeline" by code_simp
  have h2: "pipelineStates abc_pipeline 0 =
      Some \<lparr>components = [''a'', ''b'', ''c''], currentStep = 0, isActive = False\<rparr>"
    by code_simp
  have h3: "\<not> truthy (Some ''zzz'') \<or> the (Some ''zzz'') \<notin> set (components
      \<lparr>components = [''a'', ''b'', ''c''], currentStep = 0, isActive = False\<rparr>)"
    by simp
  have h4: "console_warn abc_pipeline = []" by code_simp
  from unknown_stage_rejected [OF h1 h2 h3, of None] h1 h4 show ?thesis by simp
qed

lemma createPipelineFlow_invalid:
  "\<not> valid_components comps \<Longrightarrow>
   createPipelineFlow agentId comps m =
     (warn (''Cannot create pipeline flow: Invalid components for agent '' @
        string_of_nat agentId) m, None)"
  by (simp add: valid_components_def createPipelineFlow_def split: components_arg.splits)

lemma createPipelineFlow_valid:
  "cs \<noteq> [] \<Longrightarrow> pipelineStates m agentId \<noteq> None \<Longrightarrow>
   createPipelineFlow agentId (StageArray cs) m =
     (put_element agentId ((pipelineElement m agentId)\<lparr>columns := map new_column cs\<rparr>)
        (put_state agentId \<lparr>components = cs, currentStep = 0, isActive = False\<rparr> m), None)"
  by (simp add: createPipelineFlow_def Let_def)

lemma component_new_column: "map (column_component \<circ> new_column) cs = cs"
  by (induction cs) (simp_all add: new_column_def)

text \<open>
  C9, as the claim states it, fails: after the pipeline \<open>a, b, c\<close> of agent 0 was
  completed, \<open>createPipelineFlow(0, ['a','b','c'])\<close> leaves the class
  \<open>pipeline-completed\<close> set, and \<open>currentStep\<close> is 0, the position of stage \<open>a\<close>: the
  pipeline state after creation is the state after stage \<open>a\<close> was announced.
\<close>

theorem createPipelineFlow_reset_counterexample:
  "pipeline_completed (pipelineElement
      (fst (createPipelineFlow 0 (StageArray [''a'', ''b'', ''c''])
         (fst (updatePipelineStage 0 (Some ''c'') None abc_pipeline)))) 0) = True \<and>
   currentStep (pipelineStates0
      (fst (createPipelineFlow 0 (StageArray [''a'', ''b'', ''c''])
         (fst (updatePipelineStage 0 (Some ''c'') None abc_pipeline))))) =
     indexOf [''a'', ''b'', ''c''] ''a'' \<and>
   pipelineStates0 (fst (updatePipelineStage 0 (Some ''a'') None abc_pipeline)) =
     pipelineStates0 abc_pipeline"
  by code_simp

text \<open>
  C9, amended: for every agent id, \<open>createPipelineFlow\<close> with an absent, non-array or
  empty stage list logs a warning and changes nothing else. With a non-empty stage list
  and agent id 0 or 1 it stores the stages, sets \<open>currentStep\<close> to 0 and \<open>isActive\<close> to
  false, and replaces the rendering by one fresh column per stage, with an empty summary
  and no \<open>current\<close> mark; the pipeline is then built, the class \<open>pipeline-completed\<close> of
  the pipeline element is as before, and the other agent's pipeline is untouched. With a
  non-empty stage list and any other agent id it throws before changing anything.
\<close>

theorem createPipelineFlow_reset:
  "(\<not> valid_components comps \<longrightarrow>
      createPipelineFlow agentId comps m =
        (warn (''Cannot create pipeline flow: Invalid components for agent '' @
           string_of_nat agentId) m, None)) \<and>
   (cs \<noteq> [] \<and> pipelineStates m agentId = None \<longrightarrow>
      createPipelineFlow agentId (StageArray cs) m = (m, Some TypeError)) \<and>
   (cs \<noteq> [] \<and> pipelineStates m agentId \<noteq> None \<longrightarrow>
      snd (createPipelineFlow agentId (StageArray cs) m) = None \<and>
      pipelineStates (fst (createPipelineFlow agentId (StageArray cs) m)) agentId =
        Some \<lparr>components = cs, currentStep = 0, isActive = False\<rparr> \<and>
      columns (pipelineElement (fst (createPipelineFlow agentId (StageArray cs) m)) agentId) =
        map new_column cs \<and>
      pipeline_completed
        (pipelineElement (fst (createPipelineFlow agentId (StageArray cs) m)) agentId) =
        pipeline_completed (pipelineElement m agentId) \<and>
      built agentId (fst (createPipelineFlow agentId (StageArray cs) m)) \<and>
      console_warn (fst (createPipelineFlow agentId (StageArray cs) m)) = console_warn m \<and>
      pipelineStates (fst (createPipelineFlow agentId (StageArray cs) m)) (1 - agentId) =
        pipelineStates m (1 - agentId) \<and>
      pipelineElement (fst (createPipelineFlow agentId (StageArray cs) m)) (1 - agentId) =
        pipelineElement m (1 - agentId))"
proof (intro conjI impI)
  assume "\<not> valid_components comps"
  then show "createPipelineFlow agentId comps m =
        (warn (''Cannot create pipeline flow: Invalid components for agent '' @
           string_of_nat agentId) m, None)"
    by (rule createPipelineFlow_invalid)
next
  assume "cs \<noteq> [] \<and> pipelineStates m agentId = None"
  then show "createPipelineFlow agentId (StageArray cs) m = (m, Some TypeError)"
    by (simp add: createPipelineFlow_def)
next
  assume a: "cs \<noteq> [] \<and> pipelineStates m agentId \<noteq> None"
  then have u: "createPipelineFlow agentId (StageArray cs) m =
     (put_element agentId ((pipelineElement m agentId)\<lparr>columns := map new_column cs\<rparr>)
        (put_state agentId \<lparr>components = cs, currentStep = 0, isActive = False\<rparr> m), None)"
    by (simp add: createPipelineFlow_valid)
  from a obtain st where "pipelineStates m agentId = Some st" by auto
  from known_id [OF this] have id: "agentId = 0 \<or> agentId = 1" .
  from a have k: "pipelineStates m agentId \<noteq> None" by simp
  show "snd (createPipelineFlow agentId (StageArray cs) m) = None"
    by (simp add: u)
  show "pipelineStates (fst (createPipelineFlow agentId (StageArray cs) m)) agentId =
        Some \<lparr>components = cs, currentStep = 0, isActive = False\<rparr>"
    by (simp add: u states_put_state [OF k])
  show "columns (pipelineElement (fst (createPipelineFlow agentId (StageArray cs) m)) agentId) =
        map new_column cs"
    by (simp add: u)
  show "pipeline_completed
        (pipelineElement (fst (createPipelineFlow agentId (StageArray cs) m)) agentId) =
        pipeline_completed (pipelineElement m agentId)"
    by (simp add: u)
  show "built agentId (fst (createPipelineFlow agentId (StageArray cs) m))"
    using a by (simp add: u built_def states_put_state [OF k] component_new_column)
  show "console_warn (fst (createPipelineFlow agentId (StageArray cs) m)) = console_warn m"
    by (simp add: u put_element_def put_state_def)
  show "pipelineStates (fst (createPipelineFlow agentId (StageArray cs) m)) (1 - agentId) =
        pipelineStates m (1 - agentId)"
    using id by (auto simp add: u states_put_state_other)
  show "pipelineElement (fst (createPipelineFlow agentId (StageArray cs) m)) (1 - agentId) =
        pipelineElement m (1 - agentId)"
    using id by (auto simp add: u element_put_element_other)
qed

theorem createPipelineFlow_reset_witness:
  "\<not> valid_components Absent \<and> [''a'', ''b'', ''c''] \<noteq> [] \<and> pipelineStates initial_pipelines 2 = None \<and>
   pipelineStates initial_pipelines 0 \<noteq> None \<and>
   console_warn (fst (createPipelineFlow 0 Absent initial_pipelines)) =
     [''Cannot create pipeline flow: Invalid components for agent 0''] \<and>
   createPipelineFlow 2 (StageArray [''a'', ''b'', ''c'']) initial_pipelines =
     (initial_pipelines, Some TypeError) \<and>
   pipelineStates (fst (createPipelineFlow 0 (StageArray [''a'', ''b'', ''c'']) initial_pipelines)) 0 =
     Some \<lparr>components = [''a'', ''b'', ''c''], currentStep = 0, isActive = False\<rparr>"
proof -
  have h1: "\<not> valid_components Absent" by (simp add: valid_components_def)
  have h2: "[''a'', ''b'', ''c''] \<noteq> [] \<and> pipelineStates initial_pipelines 2 = None"
    by (simp add: pipelineStates_def)
  have h3: "[''a'', ''b'', ''c''] \<noteq> [] \<and> pipelineStates initial_pipelines 0 \<noteq> None"
    by (simp add: pipelineStates_def)
  have n0: "string_of_nat 0 = ''0''" by code_simp
  from createPipelineFlow_reset [of Absent 0 initial_pipelines "[''a'', ''b'', ''c'']"] h1 h3
  have a: "console_warn (fst (createPipelineFlow 0 Absent initial_pipelines)) =
     [''Cannot create pipeline flow: Invalid components for agent 0'']"
    and c: "pipelineStates (fst (createPipelineFlow 0 (StageArray [''a'', ''b'', ''c'']) initial_pipelines)) 0 =
     Some \<lparr>components = [''a'', ''b'', ''c''], currentStep = 0, isActive = False\<rparr>"
    by (simp_all add: warn_def initial_pipelines_def n0)
  from createPipelineFlow_reset [of Absent 2 initial_pipelines "[''a'', ''b'', ''c'']"] h2
  have b: "createPipelineFlow 2 (StageArray [''a'', ''b'', ''c'']) initial_pipelines =
     (initial_pipelines, Some TypeError)"
    by simp
  from h1 h2 h3 a b c show ?thesis by simp
qed

section \<open>Pipeline Manager: the \<open>isActive\<close> flag\<close>

lemma inactive_createPipelineFlow:
  "inactive m \<Longrightarrow> inactive (fst (createPipelineFlow agentId comps m))"
  by (auto simp add: createPipelineFlow_def inactive_def Let_def put_state_def put_element_def
      pipelineStates_def warn_def split: components_arg.splits)

lemma inactive_updatePipelineStage:
  "inactive m \<Longrightarrow> inactive (fst (updatePipelineStage agentId stage summary m))"
  by (auto simp add: updatePipelineStage_def switchActiveFlag_def inactive_def Let_def
        put_state_def put_element_def pipelineStates_def pipelineElement_def warn_def
        split: option.splits if_splits)

lemma inactive_run_calls: "inactive m \<Longrightarrow> inactive (run_calls cs m)"
proof (induction cs arbitrary: m)
  case Nil
  then show ?case by (simp add: run_calls_def)
next
  case (Cons c cs)
  have "inactive (fst (call c m))"
    using Cons.prems
    by (cases c) (simp_all add: inactive_createPipelineFlow inactive_updatePipelineStage)
  from Cons.IH [OF this] show ?case by (simp add: run_calls_def)
qed

lemma inactive_initial: "inactive initial_pipelines"
  by (simp add: inactive_def initial_pipelines_def)

text \<open>
  C10: after any sequence of \<open>createPipelineFlow\<close> and \<open>updatePipelineStage\<close> calls on
  the manager as the module creates it, whatever their arguments and whether or not a
  call threw, \<open>isActive\<close> is false in the pipeline state of agent 0 and of agent 1, and
  \<open>getActiveFlag\<close> returns false for both.
\<close>

theorem isActive_always_false:
  "isActive (pipelineStates0 (run_calls cs initial_pipelines)) = False \<and>
   isActive (pipelineStates1 (run_calls cs initial_pipelines)) = False \<and>
   getActiveFlag 0 (run_calls cs initial_pipelines) = Inr False \<and>
   getActiveFlag 1 (run_calls cs initial_pipelines) = Inr False"
  using inactive_run_calls [OF inactive_initial, of cs]
  by (simp add: inactive_def getActiveFlag_def pipelineStates_def)

section \<open>Event Router: restoration\<close>

lemma states_lt2: "i < 2 \<Longrightarrow> \<exists>st. pipelineStates m i = Some st"
  by (auto simp add: pipelineStates_def)

lemma states_put_state_lt2: "a < 2 \<Longrightarrow> pipelineStates (put_state a st m) a = Some st"
  by (auto simp add: pipelineStates_def put_state_def)

lemma states_put_state_lt2_other:
  "a \<noteq> b \<Longrightarrow> pipelineStates (put_state a st m) b = pipelineStates m b"
  by (auto simp add: pipelineStates_def put_state_def)

lemma element_other_lt2:
  "a < 2 \<Longrightarrow> b < 2 \<Longrightarrow> a \<noteq> b \<Longrightarrow> pipelineElement (put_element a e m) b = pipelineElement m b"
  by (auto simp add: pipelineElement_def put_element_def)


lemma switchActiveFlag_known:
  "agentId < 2 \<Longrightarrow> pipelineStates m agentId = Some st \<Longrightarrow> isActive st \<Longrightarrow>
   switchActiveFlag agentId m =
     (put_element agentId
        ((pipelineElement m agentId)
           \<lparr>pipeline_completed := \<not> pipeline_completed (pipelineElement m agentId)\<rparr>)
        (put_state agentId (st\<lparr>isActive := False\<rparr>) m), None)"
  by (simp add: switchActiveFlag_def Let_def)

text \<open>The three ways through updatePipelineStage for a known agent and a truthy stage.\<close>

lemma updatePipelineStage_known:
  assumes i: "i < 2" and st: "pipelineStates m i = Some st" and s: "s \<noteq> []"
  shows "updatePipelineStage i (Some s) sm m =
    (let idx = indexOf (components st) s;
         m1 = (if idx \<noteq> - 1 then put_state i (st\<lparr>currentStep := idx\<rparr>) m else m);
         e = pipelineElement m i
     in if has_summary s (columns e) then
          (if idx = int (length (components st)) - 1 then
             (put_element i
                \<lparr>columns = update_first s (mark_current sm) (remove_current (columns e)),
                 pipeline_completed = (\<not> pipeline_completed e)\<rparr>
                (put_state i
                   ((if idx \<noteq> - 1 then st\<lparr>currentStep := idx\<rparr> else st)\<lparr>isActive := False\<rparr>) m),
              None)
           else
             (put_element i
                \<lparr>columns = update_first s (mark_current sm) (remove_current (columns e)),
                 pipeline_completed = pipeline_completed e\<rparr> m1, None))
        else
          (warn (''Pipeline stage element not found: '' @ string_of_nat i @ ''-'' @ s @
                   ''-summary'')
             (put_element i (e\<lparr>columns := remove_current (columns e)\<rparr>) m1),
           None))"
proof -
  from i have "i = 0 \<or> i = 1" by auto
  then show ?thesis
  proof
    assume "i = 0"
    with st s show ?thesis
      by (simp add: updatePipelineStage_def switchActiveFlag_def Let_def truthy_def
            pipelineStates_def pipelineElement_def put_state_def put_element_def)
  next
    assume "i = 1"
    with st s show ?thesis
      by (simp add: updatePipelineStage_def switchActiveFlag_def Let_def truthy_def
            pipelineStates_def pipelineElement_def put_state_def put_element_def)
  qed
qed

lemma updatePipelineStage_falsy:
  "\<not> truthy stage \<Longrightarrow>
   updatePipelineStage i stage sm m =
     (warn (''Cannot update pipeline stage: No stage provided for agent '' @
        string_of_nat i) m, None)"
  by (simp add: updatePipelineStage_def)

lemma truthy_Some: "truthy stage \<Longrightarrow> \<exists>s. stage = Some s \<and> s \<noteq> []"
  by (auto simp add: truthy_def split: option.splits)


lemma updatePipelineStage_view_other:
  assumes "i < 2" and "j < 2" and "i \<noteq> j"
  shows "stage_view j (fst (updatePipelineStage i stage sm m)) = stage_view j m"
proof (cases "truthy stage")
  case False
  then show ?thesis by (simp add: updatePipelineStage_falsy stage_view_def)
next
  case True
  from truthy_Some [OF True] obtain s where s: "stage = Some s" "s \<noteq> []" by blast
  from states_lt2 [OF assms(1)] obtain st where st: "pipelineStates m i = Some st" by blast
  show ?thesis
    using assms
    by (simp add: s(1) updatePipelineStage_known [OF assms(1) st s(2)] Let_def stage_view_def
          states_put_state_lt2_other element_other_lt2)
qed


lemma createPipelineFlow_view_other:
  "i < 2 \<Longrightarrow> j < 2 \<Longrightarrow> i \<noteq> j \<Longrightarrow>
   stage_view j (fst (createPipelineFlow i comps m)) = stage_view j m"
  by (cases "valid_components comps")
     (auto simp add: createPipelineFlow_invalid stage_view_def valid_components_def
        createPipelineFlow_def Let_def states_put_state_lt2_other element_other_lt2
        split: components_arg.splits)

lemma createPipelineFlow_view:
  "i < 2 \<Longrightarrow> cs \<noteq> [] \<Longrightarrow>
   stage_view i (fst (createPipelineFlow i (StageArray cs) m)) =
     (Some \<lparr>components = cs, currentStep = 0, isActive = False\<rparr>, map new_column cs)"
  using states_lt2 [of i m]
  by (auto simp add: stage_view_def createPipelineFlow_def Let_def states_put_state_lt2)
















lemma history_complete_no_throw: "history_complete ho \<Longrightarrow> \<not> history_throws ho"
  by (auto simp add: history_complete_def history_throws_def split: option.splits)




















































lemma panel_complete_no_throw: "panel_complete d \<Longrightarrow> \<not> update_throws d"
  by (auto simp add: panel_complete_def update_throws_def)





section \<open>Pipeline State Machine: a built pipeline stays built\<close>

text \<open>
  Every call of the manager keeps a built pipeline built, whatever its arguments: the
  theorems about built pipelines apply after any further sequence of calls.
\<close>

lemma built_view:
  "built i m = (case fst (stage_view i m) of None \<Rightarrow> False
     | Some st \<Rightarrow> components st \<noteq> [] \<and> map column_component (snd (stage_view i m)) = components st)"
  by (cases "pipelineStates m i") (simp_all add: built_def stage_view_def)

lemma updatePipelineStage_unknown_id:
  "\<not> j < 2 \<Longrightarrow> stage_view i (fst (updatePipelineStage j stage sm m)) = stage_view i m"
  by (cases "truthy stage")
     (auto simp add: updatePipelineStage_falsy updatePipelineStage_def stage_view_def
        pipelineStates_def [of m j])

lemma built_updatePipelineStage:
  assumes "built i m"
  shows "built i (fst (updatePipelineStage j stage sm m))"
proof -
  from assms obtain st where st: "pipelineStates m i = Some st"
    by (auto simp add: built_def split: option.splits)
  from known_id [OF st] have i: "i < 2" by auto
  consider (same) "j = i" | (other) "j < 2" "j \<noteq> i" | (unknown) "\<not> j < 2" by blast
  then show ?thesis
  proof cases
    case same
    show ?thesis
    proof (cases "truthy stage")
      case False
      then show ?thesis using assms st
        by (simp add: updatePipelineStage_falsy built_def)
    next
      case True
      from truthy_Some [OF True] obtain s where s: "stage = Some s" "s \<noteq> []" by blast
      from assms st show ?thesis
        using i
        by (simp add: same s(1) updatePipelineStage_known [OF i st s(2)] Let_def built_def
              states_put_state_lt2 components_update_first components_remove_current)
    qed
  next
    case other
    show ?thesis
      using assms
      by (simp only: built_view updatePipelineStage_view_other [OF other(1) i other(2)])
  next
    case unknown
    show ?thesis
      using assms
      by (simp only: built_view updatePipelineStage_unknown_id [OF unknown])
  qed
qed

lemma built_createPipelineFlow:
  assumes "built i m"
  shows "built i (fst (createPipelineFlow j comps m))"
proof (cases "valid_components comps")
  case False
  from assms obtain st where st: "pipelineStates m i = Some st"
    by (auto simp add: built_def split: option.splits)
  with assms show ?thesis
    by (simp add: createPipelineFlow_invalid [OF False] built_def)
next
  case True
  then obtain cs where cs: "comps = StageArray cs" "cs \<noteq> []"
    by (auto simp add: valid_components_def split: components_arg.splits)
  from assms obtain st where st: "pipelineStates m i = Some st"
    by (auto simp add: built_def split: option.splits)
  from known_id [OF st] have i: "i < 2" by auto
  consider (same) "j = i" | (other) "j < 2" "j \<noteq> i" | (unknown) "\<not> j < 2" by blast
  then show ?thesis
  proof cases
    case same
    show ?thesis
      using cs(2) component_new_column [of cs]
      by (simp add: built_view same cs(1) createPipelineFlow_view [OF i cs(2)])
  next
    case other
    show ?thesis
      using assms
      by (simp only: built_view createPipelineFlow_view_other [OF other(1) i other(2)])
  next
    case unknown
    then have "pipelineStates m j = None" by (auto simp add: pipelineStates_def)
    then show ?thesis
      using assms cs by (simp add: createPipelineFlow_def)
  qed
qed

lemma built_run_calls: "built i m \<Longrightarrow> built i (run_calls cs m)"
proof (induction cs arbitrary: m)
  case Nil
  then show ?case by (simp add: run_calls_def)
next
  case (Cons c cs)
  have "built i (fst (call c m))"
    using Cons.prems
    by (cases c) (simp_all add: built_createPipelineFlow built_updatePipelineStage)
  from Cons.IH [OF this] show ?case by (simp add: run_calls_def)
qed

end
